theory Spec2Isabelle
  imports Main "HOL-Library.AList"
begin

section \<open>The connector of src/Connector/Connector.ts\<close>

text \<open>
  The module is one class, \<open>ConnectorClass\<close>, with one private field \<open>host\<close>, seven
  request methods built on the \<open>fetch\<close> primitive of the runtime, a socket helper, and
  the exported function \<open>initConnect\<close>. The runtime (\<open>window.location.host\<close>,
  \<open>fetch\<close>, \<open>JSON.stringify\<close>) is a parameter of the model. A promise is modelled by the
  way it settles; the effects of a call (the read of \<open>this.host\<close>, the transport call,
  the body extraction that the handler starts, the socket calls) are written to a log in
  the order the code performs them.
\<close>

subsection \<open>Values, errors and promises\<close>

text \<open>
  A value of TypeScript's type \<open>any\<close>: the request body, a parsed JSON body, a
  connection handle. Numbers are integers here (the code only tests a body for
  truthiness and hands it to \<open>JSON.stringify\<close>).
\<close>

datatype js_value =
    JUndefined
  | JNull
  | JBool bool
  | JNumber int
  | JString string
  | JArray "js_value list"
  | JObject "(string \<times> js_value) list"

text \<open>The truthiness test of \<open>body || {}\<close>.\<close>

fun truthy :: "js_value \<Rightarrow> bool" where
  "truthy JUndefined = False"
| "truthy JNull = False"
| "truthy (JBool b) = b"
| "truthy (JNumber n) = (n \<noteq> 0)"
| "truthy (JString s) = (s \<noteq> [])"
| "truthy (JArray xs) = True"
| "truthy (JObject kvs) = True"

text \<open>
  Modelled from the spec: the classes \<open>HttpError\<close> and \<open>NetworkError\<close> are imported from
  \<open>../errors\<close>, which is not among the sources. By the spec they are two error kinds of
  their own, \<open>HttpError\<close> carrying \<open>(status, statusText)\<close> and \<open>NetworkError\<close> carrying a
  message. \<open>SyntaxError\<close> and \<open>Error\<close> are the built-in classes; \<open>OtherError cls msg\<close> is
  an error of any other class (a \<open>TypeError\<close>, a \<open>DOMException\<close>), which is an instance
  neither of \<open>SyntaxError\<close> nor of \<open>HttpError\<close>.
\<close>

datatype js_error =
    SyntaxError string
  | HttpError int string
  | NetworkError string
  | Error string
  | OtherError string string

text \<open>
  \<open>err.message\<close>. The code reads it only in the last branch of the catch handler, where
  \<open>err\<close> is not an \<open>HttpError\<close>; for an \<open>HttpError\<close> the status text stands for it.
\<close>

fun message :: "js_error \<Rightarrow> string" where
  "message (SyntaxError m) = m"
| "message (HttpError s t) = t"
| "message (NetworkError m) = m"
| "message (Error m) = m"
| "message (OtherError cls m) = m"

fun instanceof_SyntaxError :: "js_error \<Rightarrow> bool" where
  "instanceof_SyntaxError (SyntaxError m) = True"
| "instanceof_SyntaxError e = False"

fun instanceof_HttpError :: "js_error \<Rightarrow> bool" where
  "instanceof_HttpError (HttpError s t) = True"
| "instanceof_HttpError e = False"

text \<open>How a promise settles; \<open>Pending\<close> is a promise that never does.\<close>

datatype 'a promise = Resolved 'a | Rejected js_error | Pending

fun map_promise :: "('a \<Rightarrow> 'b) \<Rightarrow> 'a promise \<Rightarrow> 'b promise" where
  "map_promise f (Resolved v) = Resolved (f v)"
| "map_promise f (Rejected e) = Rejected e"
| "map_promise f Pending = Pending"

subsection \<open>The transport: RequestInit, Response, fetch\<close>

datatype init_value =
    InitString string
  | InitHeaders "(string \<times> string) list"
  | InitOther js_value

text \<open>
  A \<open>RequestInit\<close> object: its own properties in order. Writing a property of an object
  literal after a spread (\<open>{...options, credentials: 'include'}\<close>) replaces the value
  of a key that is there and appends a new key, which is \<open>AList.update\<close>.
\<close>

type_synonym request_init = "(string \<times> init_value) list"

datatype blob = Blob "nat list" string

text \<open>
  A \<open>Response\<close>: the three fields the code reads, and how each body extraction
  (\<open>json()\<close>, \<open>text()\<close>, \<open>blob()\<close>) settles when it is called.
\<close>

record response =
  ok :: bool
  status :: int
  statusText :: string
  json_result :: "js_value promise"
  text_result :: "string promise"
  blob_result :: "blob promise"

record runtime =
  window_location_host :: string
  fetch :: "string \<Rightarrow> request_init \<Rightarrow> response promise"
  JSON_stringify :: "js_value \<Rightarrow> string"

text \<open>What a request method resolves with.\<close>

datatype result =
    JsonResult js_value
  | TextResult string
  | BlobResult blob
  | BoolResult bool

datatype effect =
    HostRead string
  | FetchCall string request_init
  | JsonCall
  | TextCall
  | BlobCall
  | ConnectCall string
  | MessagerCall js_value

subsection \<open>The class\<close>

record ConnectorClass =
  host :: string

text \<open>What a call leaves behind: the connector, the log of effects, the returned promise.\<close>

record invocation =
  connector_after :: ConnectorClass
  effects :: "effect list"
  outcome :: "result promise"

definition constructor :: "runtime \<Rightarrow> ConnectorClass" where
  "constructor rt = \<lparr>host = window_location_host rt\<rparr>"

text \<open>\<open>host || window.location.host\<close>: an absent or empty argument is falsy.\<close>

definition setHost :: "runtime \<Rightarrow> ConnectorClass \<Rightarrow> string option \<Rightarrow> ConnectorClass" where
  "setHost rt c h =
     c\<lparr>host := (case h of
                   None \<Rightarrow> window_location_host rt
                 | Some s \<Rightarrow> if s \<noteq> [] then s else window_location_host rt)\<rparr>"

text \<open>The default parameters \<open>options: RequestInit = {}\<close> and \<open>prefix: string = 'api'\<close>.\<close>

definition default_options :: "request_init option \<Rightarrow> request_init" where
  "default_options options = (case options of None \<Rightarrow> [] | Some opts \<Rightarrow> opts)"

definition default_prefix :: "string option \<Rightarrow> string" where
  "default_prefix prefix = (case prefix of None \<Rightarrow> ''api'' | Some p \<Rightarrow> p)"

text \<open>
  The template literal that opens every request method (lines 28, 55, 89, 123, 151, 176
  and 203 are the same text).
\<close>

definition request_url :: "string \<Rightarrow> string \<Rightarrow> string \<Rightarrow> string" where
  "request_url h prefix path =
     ''//'' @ h @ ''/'' @ (if prefix \<noteq> [] then prefix @ ''/'' else []) @ path"

text \<open>
  The catch handler, the same text in all seven methods: it always throws, and the value
  is what it throws.
\<close>

definition catch_handler :: "js_error \<Rightarrow> js_error" where
  "catch_handler err =
     (if instanceof_SyntaxError err then Error ''fetchApi: bad JSON''
      else if instanceof_HttpError err then err
      else NetworkError (message err))"

text \<open>
  \<open>p.then(h).catch(catch_handler)\<close>: a rejection of \<open>p\<close> skips \<open>h\<close> and reaches the
  catch handler; a rejection raised by \<open>h\<close>, or by the promise \<open>h\<close> returns, reaches it
  as well.
\<close>

definition then_catch ::
  "response promise \<Rightarrow> (response \<Rightarrow> effect list \<times> result promise) \<Rightarrow> effect list \<times> result promise"
where
  "then_catch p h =
     (case p of
        Pending \<Rightarrow> ([], Pending)
      | Rejected err \<Rightarrow> ([], Rejected (catch_handler err))
      | Resolved r \<Rightarrow>
          (case h r of
             (log, Resolved v) \<Rightarrow> (log, Resolved v)
           | (log, Rejected err) \<Rightarrow> (log, Rejected (catch_handler err))
           | (log, Pending) \<Rightarrow> (log, Pending)))"

text \<open>
  The shape all seven request methods share: the method evaluates \<open>this.host\<close> in the
  template literal of the URL (the one place where the text of a method names the field),
  calls \<open>fetch\<close> with the URL and the \<open>RequestInit\<close>, and attaches the two handlers.
  \<open>req\<close> is the request the method has built from the connector \<open>c\<close>.
\<close>

definition issue ::
  "runtime \<Rightarrow> ConnectorClass \<Rightarrow> string \<times> request_init \<Rightarrow>
   (response \<Rightarrow> effect list \<times> result promise) \<Rightarrow> invocation"
where
  "issue rt c req h =
     (case then_catch (fetch rt (fst req) (snd req)) h of
        (log, out) \<Rightarrow>
          \<lparr>connector_after = c,
           effects = HostRead (host c) # FetchCall (fst req) (snd req) # log,
           outcome = out\<rparr>)"

subsubsection \<open>fetchApi\<close>

definition fetchApi_request ::
  "ConnectorClass \<Rightarrow> string \<Rightarrow> request_init option \<Rightarrow> string option \<Rightarrow> string \<times> request_init"
where
  "fetchApi_request c path options prefix =
     (request_url (host c) (default_prefix prefix) path,
      AList.update ''credentials'' (InitString ''include'') (default_options options))"

definition fetchApi_then :: "response \<Rightarrow> effect list \<times> result promise" where
  "fetchApi_then r =
     (if \<not> ok r then ([], Rejected (HttpError (status r) (statusText r)))
      else ([JsonCall], map_promise JsonResult (json_result r)))"

definition fetchApi ::
  "runtime \<Rightarrow> ConnectorClass \<Rightarrow> string \<Rightarrow> request_init option \<Rightarrow> string option \<Rightarrow> invocation"
where
  "fetchApi rt c path options prefix =
     issue rt c (fetchApi_request c path options prefix) fetchApi_then"

subsubsection \<open>postApi\<close>

definition postApi_request ::
  "runtime \<Rightarrow> ConnectorClass \<Rightarrow> string \<Rightarrow> js_value \<Rightarrow> request_init option \<Rightarrow> string option \<Rightarrow>
   string \<times> request_init"
where
  "postApi_request rt c path body options prefix =
     (request_url (host c) (default_prefix prefix) path,
      AList.update ''method'' (InitString ''POST'')
        (AList.update ''headers'' (InitHeaders [(''Content-Type'', ''application/json'')])
          (AList.update ''credentials'' (InitString ''include'')
            (AList.update ''body''
               (InitString (JSON_stringify rt (if truthy body then body else JObject [])))
               (default_options options)))))"

definition postApi_then :: "response \<Rightarrow> effect list \<times> result promise" where
  "postApi_then r =
     (if \<not> ok r then ([], Rejected (HttpError (status r) (statusText r)))
      else if status r = 204 then ([TextCall], map_promise TextResult (text_result r))
      else ([JsonCall], map_promise JsonResult (json_result r)))"

definition postApi ::
  "runtime \<Rightarrow> ConnectorClass \<Rightarrow> string \<Rightarrow> js_value \<Rightarrow> request_init option \<Rightarrow> string option \<Rightarrow>
   invocation"
where
  "postApi rt c path body options prefix =
     issue rt c (postApi_request rt c path body options prefix) postApi_then"

subsubsection \<open>patchApi\<close>

definition patchApi_request ::
  "runtime \<Rightarrow> ConnectorClass \<Rightarrow> string \<Rightarrow> js_value \<Rightarrow> request_init option \<Rightarrow> string option \<Rightarrow>
   string \<times> request_init"
where
  "patchApi_request rt c path body options prefix =
     (request_url (host c) (default_prefix prefix) path,
      AList.update ''method'' (InitString ''PATCH'')
        (AList.update ''headers'' (InitHeaders [(''Content-Type'', ''application/json'')])
          (AList.update ''credentials'' (InitString ''include'')
            (AList.update ''body''
               (InitString (JSON_stringify rt (if truthy body then body else JObject [])))
               (default_options options)))))"

definition patchApi_then :: "response \<Rightarrow> effect list \<times> result promise" where
  "patchApi_then r =
     (if \<not> ok r then ([], Rejected (HttpError (status r) (statusText r)))
      else if status r = 204 then ([TextCall], map_promise TextResult (text_result r))
      else ([JsonCall], map_promise JsonResult (json_result r)))"

definition patchApi ::
  "runtime \<Rightarrow> ConnectorClass \<Rightarrow> string \<Rightarrow> js_value \<Rightarrow> request_init option \<Rightarrow> string option \<Rightarrow>
   invocation"
where
  "patchApi rt c path body options prefix =
     issue rt c (patchApi_request rt c path body options prefix) patchApi_then"

subsubsection \<open>deleteApi\<close>

definition deleteApi_request ::
  "ConnectorClass \<Rightarrow> string \<Rightarrow> request_init option \<Rightarrow> string option \<Rightarrow> string \<times> request_init"
where
  "deleteApi_request c path options prefix =
     (request_url (host c) (default_prefix prefix) path,
      AList.update ''method'' (InitString ''DELETE'')
        (AList.update ''headers'' (InitHeaders [(''Content-Type'', ''application/json'')])
          (AList.update ''credentials'' (InitString ''include'') (default_options options))))"

definition deleteApi_then :: "response \<Rightarrow> effect list \<times> result promise" where
  "deleteApi_then r =
     (if \<not> ok r then ([], Rejected (HttpError (status r) (statusText r)))
      else ([JsonCall], map_promise JsonResult (json_result r)))"

definition deleteApi ::
  "runtime \<Rightarrow> ConnectorClass \<Rightarrow> string \<Rightarrow> request_init option \<Rightarrow> string option \<Rightarrow> invocation"
where
  "deleteApi rt c path options prefix =
     issue rt c (deleteApi_request c path options prefix) deleteApi_then"

subsubsection \<open>getApi\<close>

definition getApi_request ::
  "ConnectorClass \<Rightarrow> string \<Rightarrow> request_init option \<Rightarrow> string option \<Rightarrow> string \<times> request_init"
where
  "getApi_request c path options prefix =
     (request_url (host c) (default_prefix prefix) path,
      AList.update ''credentials'' (InitString ''include'') (default_options options))"

definition getApi_then :: "response \<Rightarrow> effect list \<times> result promise" where
  "getApi_then r =
     (if \<not> ok r then ([], Rejected (HttpError (status r) (statusText r)))
      else ([TextCall], map_promise TextResult (text_result r)))"

definition getApi ::
  "runtime \<Rightarrow> ConnectorClass \<Rightarrow> string \<Rightarrow> request_init option \<Rightarrow> string option \<Rightarrow> invocation"
where
  "getApi rt c path options prefix =
     issue rt c (getApi_request c path options prefix) getApi_then"

subsubsection \<open>headApi\<close>

definition headApi_request ::
  "ConnectorClass \<Rightarrow> string \<Rightarrow> request_init option \<Rightarrow> string option \<Rightarrow> string \<times> request_init"
where
  "headApi_request c path options prefix =
     (request_url (host c) (default_prefix prefix) path,
      AList.update ''credentials'' (InitString ''include'')
        (AList.update ''method'' (InitString ''HEAD'') (default_options options)))"

definition headApi_then :: "response \<Rightarrow> effect list \<times> result promise" where
  "headApi_then r =
     (if \<not> ok r then ([], Resolved (BoolResult True))
      else ([], Resolved (BoolResult False)))"

definition headApi ::
  "runtime \<Rightarrow> ConnectorClass \<Rightarrow> string \<Rightarrow> request_init option \<Rightarrow> string option \<Rightarrow> invocation"
where
  "headApi rt c path options prefix =
     issue rt c (headApi_request c path options prefix) headApi_then"

subsubsection \<open>downloadApi\<close>

definition downloadApi_request ::
  "ConnectorClass \<Rightarrow> string \<Rightarrow> request_init option \<Rightarrow> string option \<Rightarrow> string \<times> request_init"
where
  "downloadApi_request c path options prefix =
     (request_url (host c) (default_prefix prefix) path,
      AList.update ''credentials'' (InitString ''include'') (default_options options))"

definition downloadApi_then :: "response \<Rightarrow> effect list \<times> result promise" where
  "downloadApi_then r =
     (if \<not> ok r then ([], Rejected (HttpError (status r) (statusText r)))
      else ([BlobCall], map_promise BlobResult (blob_result r)))"

definition downloadApi ::
  "runtime \<Rightarrow> ConnectorClass \<Rightarrow> string \<Rightarrow> request_init option \<Rightarrow> string option \<Rightarrow> invocation"
where
  "downloadApi rt c path options prefix =
     issue rt c (downloadApi_request c path options prefix) downloadApi_then"

subsubsection \<open>openSocketConnection and initConnect\<close>

text \<open>
  \<open>io.connect\<close> and \<open>messager\<close> are the caller's code: the model records that they are
  called and with what, \<open>connect\<close> being a function from the host to the handle.
\<close>

definition openSocketConnection ::
  "ConnectorClass \<Rightarrow> (string \<Rightarrow> js_value) \<Rightarrow> ConnectorClass \<times> effect list"
where
  "openSocketConnection c connect =
     (let connection = connect (host c)
      in (c, [HostRead (host c), ConnectCall (host c), MessagerCall connection]))"

text \<open>\<open>initConnect\<close> works on the exported singleton, the connector passed here.\<close>

definition initConnect :: "runtime \<Rightarrow> ConnectorClass \<Rightarrow> string option \<Rightarrow> ConnectorClass" where
  "initConnect rt Connector h = setHost rt Connector h"

subsection \<open>All request methods at once\<close>

datatype api = FetchApi | PostApi | PatchApi | DeleteApi | GetApi | HeadApi | DownloadApi

text \<open>
  One call of a request method: \<open>body\<close> is read by \<open>postApi\<close> and \<open>patchApi\<close> only, the
  other methods have no such parameter.
\<close>

fun invoke ::
  "runtime \<Rightarrow> api \<Rightarrow> ConnectorClass \<Rightarrow> string \<Rightarrow> js_value \<Rightarrow> request_init option \<Rightarrow>
   string option \<Rightarrow> invocation"
where
  "invoke rt FetchApi c path body options prefix = fetchApi rt c path options prefix"
| "invoke rt PostApi c path body options prefix = postApi rt c path body options prefix"
| "invoke rt PatchApi c path body options prefix = patchApi rt c path body options prefix"
| "invoke rt DeleteApi c path body options prefix = deleteApi rt c path options prefix"
| "invoke rt GetApi c path body options prefix = getApi rt c path options prefix"
| "invoke rt HeadApi c path body options prefix = headApi rt c path options prefix"
| "invoke rt DownloadApi c path body options prefix = downloadApi rt c path options prefix"

text \<open>The request a call hands to the transport, and the handler it attaches.\<close>

fun request_of ::
  "runtime \<Rightarrow> api \<Rightarrow> ConnectorClass \<Rightarrow> string \<Rightarrow> js_value \<Rightarrow> request_init option \<Rightarrow>
   string option \<Rightarrow> string \<times> request_init"
where
  "request_of rt FetchApi c path body options prefix = fetchApi_request c path options prefix"
| "request_of rt PostApi c path body options prefix = postApi_request rt c path body options prefix"
| "request_of rt PatchApi c path body options prefix = patchApi_request rt c path body options prefix"
| "request_of rt DeleteApi c path body options prefix = deleteApi_request c path options prefix"
| "request_of rt GetApi c path body options prefix = getApi_request c path options prefix"
| "request_of rt HeadApi c path body options prefix = headApi_request c path options prefix"
| "request_of rt DownloadApi c path body options prefix = downloadApi_request c path options prefix"

fun then_of :: "api \<Rightarrow> response \<Rightarrow> effect list \<times> result promise" where
  "then_of FetchApi = fetchApi_then"
| "then_of PostApi = postApi_then"
| "then_of PatchApi = patchApi_then"
| "then_of DeleteApi = deleteApi_then"
| "then_of GetApi = getApi_then"
| "then_of HeadApi = headApi_then"
| "then_of DownloadApi = downloadApi_then"

text \<open>The promise the transport returns to a call.\<close>

definition transport_reply ::
  "runtime \<Rightarrow> api \<Rightarrow> ConnectorClass \<Rightarrow> string \<Rightarrow> js_value \<Rightarrow> request_init option \<Rightarrow>
   string option \<Rightarrow> response promise"
where
  "transport_reply rt m c path body options prefix =
     fetch rt (fst (request_of rt m c path body options prefix))
              (snd (request_of rt m c path body options prefix))"

text \<open>
  The URLs of the transport calls in a log, the values the reads of \<open>this.host\<close> in a
  log gave, and whether a log entry extracts a body.
\<close>

fun fetched_urls :: "effect list \<Rightarrow> string list" where
  "fetched_urls [] = []"
| "fetched_urls (FetchCall url init # es) = url # fetched_urls es"
| "fetched_urls (e # es) = fetched_urls es"


fun is_body_extraction :: "effect \<Rightarrow> bool" where
  "is_body_extraction JsonCall = True"
| "is_body_extraction TextCall = True"
| "is_body_extraction BlobCall = True"
| "is_body_extraction e = False"

subsection \<open>Calls that overlap\<close>

text \<open>
  A request method runs to its \<open>return\<close> without interruption, and when it returns the
  promise of the transport is still pending: the handlers run later, when the transport
  settles that promise, and other calls (of \<open>setHost\<close>, of request methods) can run in
  between. The system below has the connector, the calls in flight and the calls that
  have settled. A \<open>Call\<close> runs the method itself on the connector of that moment, against a
  transport that has not answered yet, and keeps what the method has done so far. A
  \<open>Settle\<close> is the transport settling the promise of a call in flight: the handlers of
  that method run on the reply, and the call's log and promise are completed.
\<close>

record system =
  connector :: ConnectorClass
  in_flight :: "(api \<times> invocation) list"
  settled :: "invocation list"

datatype event =
    Call api string js_value "request_init option" "string option"
  | SetHost "string option"
  | Settle nat "response promise"

definition unanswered :: "runtime \<Rightarrow> runtime" where
  "unanswered rt = rt\<lparr>fetch := (\<lambda>url init. Pending)\<rparr>"


fun step :: "runtime \<Rightarrow> system \<Rightarrow> event \<Rightarrow> system" where
  "step rt s (Call m path body options prefix) =
     (let call = invoke (unanswered rt) m (connector s) path body options prefix
      in s\<lparr>connector := connector_after call, in_flight := in_flight s @ [(m, call)]\<rparr>)"
| "step rt s (SetHost h) = s\<lparr>connector := setHost rt (connector s) h\<rparr>"
| "step rt s (Settle k p) =
     (if k < length (in_flight s) then
        (case in_flight s ! k of
           (m, call) \<Rightarrow>
             (case then_catch p (then_of m) of
                (log, out) \<Rightarrow>
                  s\<lparr>in_flight := take k (in_flight s) @ drop (Suc k) (in_flight s),
                    settled := settled s @ [call\<lparr>effects := effects call @ log, outcome := out\<rparr>]\<rparr>))
      else s)"

definition run :: "runtime \<Rightarrow> system \<Rightarrow> event list \<Rightarrow> system" where
  "run rt s es = foldl (step rt) s es"

subsection \<open>Example inputs\<close>

text \<open>
  A transport that answers every call with the same promise, on a page served from
  \<open>localhost:8080\<close>, and four responses: a 404, a 204 with an empty body (whose
  \<open>json()\<close> fails, the empty text being no JSON document), a 200 whose body is HTML, and a
  201 with a JSON body.
\<close>

definition mock :: "response promise \<Rightarrow> runtime" where
  "mock p =
     \<lparr>window_location_host = ''localhost:8080'', fetch = (\<lambda>url init. p),
      JSON_stringify = (\<lambda>v. ''{}'')\<rparr>"

definition example_org :: ConnectorClass where
  "example_org = \<lparr>host = ''example.org''\<rparr>"

definition not_found :: response where
  "not_found =
     \<lparr>ok = False, status = 404, statusText = ''Not Found'',
      json_result = Resolved JNull, text_result = Resolved [],
      blob_result = Resolved (Blob [] [])\<rparr>"

definition no_content :: response where
  "no_content =
     \<lparr>ok = True, status = 204, statusText = ''No Content'',
      json_result = Rejected (SyntaxError ''Unexpected end of JSON input''),
      text_result = Resolved [], blob_result = Resolved (Blob [] [])\<rparr>"

definition html_page :: response where
  "html_page =
     \<lparr>ok = True, status = 200, statusText = ''OK'',
      json_result = Rejected (SyntaxError ''Unexpected token < in JSON at position 0''),
      text_result = Resolved ''<html>'', blob_result = Resolved (Blob [60] ''text/html'')\<rparr>"

definition created :: response where
  "created =
     \<lparr>ok = True, status = 201, statusText = ''Created'',
      json_result = Resolved (JObject [(''id'', JString ''7'')]),
      text_result = Resolved ''{id:7}'', blob_result = Resolved (Blob [] [])\<rparr>"

definition fresh :: system where
  "fresh = \<lparr>connector = example_org, in_flight = [], settled = []\<rparr>"

section \<open>Properties\<close>

subsection \<open>Shared lemmas\<close>

lemma issue_simps:
  "connector_after (issue rt c req h) = c"
  "effects (issue rt c req h) =
     HostRead (host c) # FetchCall (fst req) (snd req)
     # fst (then_catch (fetch rt (fst req) (snd req)) h)"
  "outcome (issue rt c req h) = snd (then_catch (fetch rt (fst req) (snd req)) h)"
  by (simp_all add: issue_def split: prod.splits)

lemma invoke_issue:
  "invoke rt m c path body options prefix =
     issue rt c (request_of rt m c path body options prefix) (then_of m)"
  by (cases m)
     (simp_all add: fetchApi_def postApi_def patchApi_def deleteApi_def getApi_def
        headApi_def downloadApi_def)

lemma request_of_url:
  "fst (request_of rt m c path body options prefix) =
     request_url (host c) (default_prefix prefix) path"
  by (cases m)
     (simp_all add: fetchApi_request_def postApi_request_def patchApi_request_def
        deleteApi_request_def getApi_request_def headApi_request_def downloadApi_request_def)

lemmas then_defs =
  fetchApi_then_def postApi_then_def patchApi_then_def deleteApi_then_def getApi_then_def
  headApi_then_def downloadApi_then_def

lemma then_of_no_fetch: "fetched_urls (fst (then_of m r)) = []"
  by (cases m) (simp_all add: then_defs)

lemma then_catch_no_fetch: "fetched_urls (fst (then_catch p (then_of m))) = []"
proof (cases p)
  case (Resolved r)
  obtain log q where hr: "then_of m r = (log, q)"
    by (cases "then_of m r")
  with then_of_no_fetch [of m r] have "fetched_urls log = []"
    by simp
  with Resolved hr show ?thesis
    by (cases q) (simp_all add: then_catch_def)
qed (simp_all add: then_catch_def)

lemma invoke_url:
  "fetched_urls (effects (invoke rt m c path body options prefix)) =
     [request_url (host c) (default_prefix prefix) path]"
  by (simp add: invoke_issue issue_simps request_of_url then_catch_no_fetch)

lemma invoke_outcome:
  "outcome (invoke rt m c path body options prefix) =
     snd (then_catch (transport_reply rt m c path body options prefix) (then_of m))"
  by (simp add: invoke_issue issue_simps transport_reply_def)

lemma invoke_effects:
  "effects (invoke rt m c path body options prefix) =
     HostRead (host c)
     # FetchCall (fst (request_of rt m c path body options prefix))
               (snd (request_of rt m c path body options prefix))
     # fst (then_catch (transport_reply rt m c path body options prefix) (then_of m))"
  by (simp add: invoke_issue issue_simps transport_reply_def)

lemma then_catch_Resolved:
  "then_catch (Resolved r) h =
     (fst (h r),
      case snd (h r) of
        Resolved v \<Rightarrow> Resolved v
      | Rejected err \<Rightarrow> Rejected (catch_handler err)
      | Pending \<Rightarrow> Pending)"
  by (simp add: then_catch_def split: prod.splits promise.splits)

lemma then_catch_Rejected: "then_catch (Rejected err) h = ([], Rejected (catch_handler err))"
  by (simp add: then_catch_def)

lemma then_catch_Pending: "then_catch Pending h = ([], Pending)"
  by (simp add: then_catch_def)

lemma catch_handler_bad_json:
  "catch_handler err = Error ''fetchApi: bad JSON'' \<longleftrightarrow> instanceof_SyntaxError err"
  by (cases err) (simp_all add: catch_handler_def)

lemma mock_fetch: "fetch (mock p) url init = p"
  by (simp add: mock_def)

lemma mock_reply: "transport_reply (mock p) m c path body options prefix = p"
  by (simp add: transport_reply_def mock_def)

lemma run_append: "run rt s (es @ es') = run rt (run rt s es) es'"
  by (simp add: run_def)

lemma run_Nil: "run rt s [] = s"
  by (simp add: run_def)















subsection \<open>The status check comes before the body\<close>

text \<open>
  Claim C1. When the transport resolves a call of \<open>fetchApi\<close>, \<open>postApi\<close>, \<open>patchApi\<close>,
  \<open>deleteApi\<close>, \<open>getApi\<close> or \<open>downloadApi\<close> with a response whose \<open>ok\<close> is false, the
  method rejects with \<open>HttpError\<close> carrying the response's \<open>status\<close> and \<open>statusText\<close>,
  and the log of the call holds no body extraction (\<open>json()\<close>, \<open>text()\<close>, \<open>blob()\<close>).
\<close>

theorem http_error_before_body_parsing:
  assumes "transport_reply rt m c path body options prefix = Resolved r"
    and "\<not> ok r"
    and "m \<noteq> HeadApi"
  shows "outcome (invoke rt m c path body options prefix) =
           Rejected (HttpError (status r) (statusText r)) \<and>
         \<not> list_ex is_body_extraction (effects (invoke rt m c path body options prefix))"
  unfolding invoke_outcome invoke_effects using assms
  by (cases m) (simp_all add: then_catch_Resolved then_defs catch_handler_def)

theorem http_error_before_body_parsing_witness:
  "transport_reply (mock (Resolved not_found)) GetApi example_org ''users'' JUndefined None None =
     Resolved not_found \<and>
   \<not> ok not_found \<and> GetApi \<noteq> HeadApi \<and>
   outcome (invoke (mock (Resolved not_found)) GetApi example_org ''users'' JUndefined None None) =
     Rejected (HttpError 404 ''Not Found'') \<and>
   \<not> list_ex is_body_extraction
       (effects (invoke (mock (Resolved not_found)) GetApi example_org ''users'' JUndefined None None))"
  using http_error_before_body_parsing [of "mock (Resolved not_found)" GetApi example_org
      "''users''" JUndefined None None not_found]
  by (simp add: mock_reply not_found_def)

subsection \<open>The request URL\<close>

text \<open>
  Claim C2. Every request method calls the transport once, with the URL
  \<open>//{host}/{prefix}/{path}\<close> when the prefix is not empty and \<open>//{host}/{path}\<close> when it
  is; the path stands in the URL as it was given; a call without a prefix uses \<open>api\<close>.
\<close>

theorem request_url_shape:
  "fetched_urls (effects (invoke rt m c path body options (Some prefix))) =
     [if prefix \<noteq> [] then ''//'' @ host c @ ''/'' @ prefix @ ''/'' @ path
      else ''//'' @ host c @ ''/'' @ path] \<and>
   fetched_urls (effects (invoke rt m c path body options None)) =
     [''//'' @ host c @ ''/api/'' @ path]"
  by (simp add: invoke_url request_url_def default_prefix_def)

theorem request_url_shape_witness:
  "fetched_urls (effects (invoke (mock Pending) PostApi example_org ''a b?x=1&y=%''
      JNull None (Some ''v2''))) = [''//example.org/v2/a b?x=1&y=%''] \<and>
   fetched_urls (effects (invoke (mock Pending) PostApi example_org ''a b?x=1&y=%''
      JNull None (Some []))) = [''//example.org/a b?x=1&y=%''] \<and>
   fetched_urls (effects (invoke (mock Pending) PostApi example_org ''a b?x=1&y=%''
      JNull None None)) = [''//example.org/api/a b?x=1&y=%'']"
  using request_url_shape [of "mock Pending" PostApi example_org "''a b?x=1&y=%''" JNull None "''v2''"]
    request_url_shape [of "mock Pending" PostApi example_org "''a b?x=1&y=%''" JNull None "[]"]
  by (simp add: example_org_def)

subsection \<open>Bad JSON\<close>

text \<open>
  Claim C3, as stated, fails for \<open>postApi\<close> and \<open>patchApi\<close> at status 204: the response
  \<open>no_content\<close> is ok and its \<open>json()\<close> fails with a syntax error, yet both methods read
  \<open>text()\<close> and resolve with the empty text.
\<close>

theorem bad_json_at_204_counterexample:
  "ok no_content \<and>
   json_result no_content = Rejected (SyntaxError ''Unexpected end of JSON input'') \<and>
   transport_reply (mock (Resolved no_content)) PostApi example_org ''items'' JNull None None =
     Resolved no_content \<and>
   outcome (postApi (mock (Resolved no_content)) example_org ''items'' JNull None None) =
     Resolved (TextResult []) \<and>
   outcome (patchApi (mock (Resolved no_content)) example_org ''items'' JNull None None) =
     Resolved (TextResult [])"
  by (simp add: mock_reply mock_fetch no_content_def postApi_def patchApi_def issue_simps
      then_catch_Resolved postApi_then_def patchApi_then_def)

text \<open>
  Claim C3, amended. When the transport resolves a call with a response whose \<open>ok\<close> is
  true and whose \<open>json()\<close> rejects with a syntax error, \<open>fetchApi\<close> and \<open>deleteApi\<close>
  reject with the generic error of message \<open>fetchApi: bad JSON\<close>, and so do \<open>postApi\<close> and
  \<open>patchApi\<close> when the status is not 204.
\<close>

theorem bad_json_rejected:
  assumes "transport_reply rt m c path body options prefix = Resolved r"
    and "ok r"
    and "json_result r = Rejected err"
    and "instanceof_SyntaxError err"
    and "m = FetchApi \<or> m = DeleteApi \<or> (m = PostApi \<or> m = PatchApi) \<and> status r \<noteq> 204"
  shows "outcome (invoke rt m c path body options prefix) =
           Rejected (Error ''fetchApi: bad JSON'')"
  unfolding invoke_outcome using assms
  by (auto simp add: then_catch_Resolved then_defs catch_handler_def)

theorem bad_json_rejected_witness:
  "transport_reply (mock (Resolved html_page)) PatchApi example_org ''items/7'' JNull None None =
     Resolved html_page \<and>
   ok html_page \<and>
   json_result html_page = Rejected (SyntaxError ''Unexpected token < in JSON at position 0'') \<and>
   instanceof_SyntaxError (SyntaxError ''Unexpected token < in JSON at position 0'') \<and>
   status html_page \<noteq> 204 \<and>
   outcome (invoke (mock (Resolved html_page)) PatchApi example_org ''items/7'' JNull None None) =
     Rejected (Error ''fetchApi: bad JSON'')"
  using bad_json_rejected [of "mock (Resolved html_page)" PatchApi example_org "''items/7''" JNull
      None None html_page "SyntaxError ''Unexpected token < in JSON at position 0''"]
  by (simp add: mock_reply html_page_def)

subsection \<open>Transport failures\<close>

text \<open>
  Claim C4. When the transport call of any request method rejects with an error that is
  neither a \<open>SyntaxError\<close> nor an \<open>HttpError\<close>, the method rejects with \<open>NetworkError\<close>
  carrying that error's message.
\<close>

theorem transport_failure_is_network_error:
  assumes "transport_reply rt m c path body options prefix = Rejected err"
    and "\<not> instanceof_SyntaxError err"
    and "\<not> instanceof_HttpError err"
  shows "outcome (invoke rt m c path body options prefix) = Rejected (NetworkError (message err))"
  unfolding invoke_outcome using assms
  by (simp add: then_catch_Rejected catch_handler_def)

theorem transport_failure_is_network_error_witness:
  "transport_reply (mock (Rejected (Error ''boom''))) HeadApi example_org ''ping'' JUndefined
      None None = Rejected (Error ''boom'') \<and>
   \<not> instanceof_SyntaxError (Error ''boom'') \<and> \<not> instanceof_HttpError (Error ''boom'') \<and>
   outcome (invoke (mock (Rejected (Error ''boom''))) HeadApi example_org ''ping'' JUndefined
      None None) = Rejected (NetworkError ''boom'')"
  using transport_failure_is_network_error [of "mock (Rejected (Error ''boom''))" HeadApi
      example_org "''ping''" JUndefined None None "Error ''boom''"]
  by (simp add: mock_reply)

subsection \<open>headApi\<close>

text \<open>
  Claim C5. When the transport resolves the call of \<open>headApi\<close> with a response,
  \<open>headApi\<close> resolves with \<open>false\<close> if the response's \<open>ok\<close> is true and with \<open>true\<close> if
  it is false; \<open>headApi\<close> rejects exactly when the transport call itself rejects.
\<close>

theorem headApi_inverted_boolean:
  "(fetch rt (fst (headApi_request c path options prefix))
             (snd (headApi_request c path options prefix)) = Resolved r \<longrightarrow>
      outcome (headApi rt c path options prefix) = Resolved (BoolResult (\<not> ok r))) \<and>
   ((\<exists>err. outcome (headApi rt c path options prefix) = Rejected err) \<longleftrightarrow>
    (\<exists>err. fetch rt (fst (headApi_request c path options prefix))
                    (snd (headApi_request c path options prefix)) = Rejected err))"
  unfolding headApi_def issue_simps
  by (cases "fetch rt (fst (headApi_request c path options prefix))
                      (snd (headApi_request c path options prefix))")
     (simp_all add: then_catch_Resolved then_catch_Rejected then_catch_Pending headApi_then_def)

theorem headApi_inverted_boolean_witness:
  "fetch (mock (Resolved not_found)) (fst (headApi_request example_org ''ping'' None None))
      (snd (headApi_request example_org ''ping'' None None)) = Resolved not_found \<and>
   \<not> ok not_found \<and>
   outcome (headApi (mock (Resolved not_found)) example_org ''ping'' None None) =
     Resolved (BoolResult True) \<and>
   ok created \<and>
   outcome (headApi (mock (Resolved created)) example_org ''ping'' None None) =
     Resolved (BoolResult False)"
  using headApi_inverted_boolean [of "mock (Resolved not_found)" example_org "''ping''" None None
      not_found]
    headApi_inverted_boolean [of "mock (Resolved created)" example_org "''ping''" None None created]
  by (simp add: mock_fetch not_found_def created_def)

subsection \<open>Status 204\<close>

text \<open>
  Claim C6. When the transport resolves a call of \<open>postApi\<close> or \<open>patchApi\<close> with a
  response whose \<open>ok\<close> is true: at status 204 the method reads \<open>text()\<close>, not \<open>json()\<close>,
  and resolves with the text; at any other status it reads \<open>json()\<close>, not \<open>text()\<close>, and
  resolves with the parsed value.
\<close>

theorem no_content_resolves_with_text:
  assumes "transport_reply rt m c path body options prefix = Resolved r"
    and "ok r"
    and "m = PostApi \<or> m = PatchApi"
  shows "(status r = 204 \<longrightarrow> text_result r = Resolved t \<longrightarrow>
            outcome (invoke rt m c path body options prefix) = Resolved (TextResult t) \<and>
            JsonCall \<notin> set (effects (invoke rt m c path body options prefix)) \<and>
            TextCall \<in> set (effects (invoke rt m c path body options prefix))) \<and>
         (status r \<noteq> 204 \<longrightarrow> json_result r = Resolved v \<longrightarrow>
            outcome (invoke rt m c path body options prefix) = Resolved (JsonResult v) \<and>
            JsonCall \<in> set (effects (invoke rt m c path body options prefix)) \<and>
            TextCall \<notin> set (effects (invoke rt m c path body options prefix)))"
  unfolding invoke_outcome invoke_effects using assms
  by (auto simp add: then_catch_Resolved then_defs)

theorem no_content_resolves_with_text_witness:
  "transport_reply (mock (Resolved no_content)) PostApi example_org ''items'' JNull None None =
     Resolved no_content \<and>
   ok no_content \<and> status no_content = 204 \<and> text_result no_content = Resolved [] \<and>
   outcome (invoke (mock (Resolved no_content)) PostApi example_org ''items'' JNull None None) =
     Resolved (TextResult []) \<and>
   transport_reply (mock (Resolved created)) PatchApi example_org ''items'' JNull None None =
     Resolved created \<and>
   ok created \<and> status created \<noteq> 204 \<and>
   json_result created = Resolved (JObject [(''id'', JString ''7'')]) \<and>
   outcome (invoke (mock (Resolved created)) PatchApi example_org ''items'' JNull None None) =
     Resolved (JsonResult (JObject [(''id'', JString ''7'')]))"
  using no_content_resolves_with_text [of "mock (Resolved no_content)" PostApi example_org
      "''items''" JNull None None no_content "[]" JNull]
    no_content_resolves_with_text [of "mock (Resolved created)" PatchApi example_org
      "''items''" JNull None None created "[]" "JObject [(''id'', JString ''7'')]"]
  by (simp add: mock_reply no_content_def created_def)

subsection \<open>The host\<close>

text \<open>
  Claim C7. \<open>setHost(h)\<close> makes \<open>h\<close> the host when \<open>h\<close> is a non-empty string and makes
  \<open>window.location.host\<close> the host when \<open>h\<close> is absent or empty; a request issued on the
  connector after the call has the new host in its URL.
\<close>

theorem setHost_assigns_or_resets:
  "host (setHost rt c (Some h)) = (if h \<noteq> [] then h else window_location_host rt) \<and>
   host (setHost rt c None) = window_location_host rt \<and>
   fetched_urls (effects (invoke rt m (setHost rt c arg) path body options prefix)) =
     [request_url (host (setHost rt c arg)) (default_prefix prefix) path]"
  by (simp add: invoke_url setHost_def)

theorem setHost_assigns_or_resets_witness:
  "host (setHost (mock Pending) example_org (Some ''new.example'')) = ''new.example'' \<and>
   host (setHost (mock Pending) example_org (Some [])) = ''localhost:8080'' \<and>
   host (setHost (mock Pending) example_org None) = ''localhost:8080'' \<and>
   fetched_urls (effects (invoke (mock Pending) GetApi
       (setHost (mock Pending) example_org (Some ''new.example'')) ''a'' JUndefined None None)) =
     [''//new.example/api/a'']"
  using setHost_assigns_or_resets [of "mock Pending" example_org "''new.example''" GetApi
      "Some ''new.example''" "''a''" JUndefined None None]
    setHost_assigns_or_resets [of "mock Pending" example_org "[]" GetApi
      "Some ''new.example''" "''a''" JUndefined None None]
  by (simp add: mock_def request_url_def default_prefix_def)



text \<open>
  Claim C10. No request method and no call of \<open>openSocketConnection\<close> changes the host:
  the connector a call leaves behind has the host it had before, also when the call is a
  step of overlapping calls, and so has the connector when a request settles.
  \<open>initConnect\<close> is \<open>setHost\<close> on the exported connector.
\<close>

theorem host_frame:
  "host (connector_after (invoke rt m c path body options prefix)) = host c \<and>
   host (fst (openSocketConnection c connect)) = host c \<and>
   host (connector (step rt s (Call m path body options prefix))) = host (connector s) \<and>
   host (connector (step rt s (Settle k p))) = host (connector s) \<and>
   initConnect rt c h = setHost rt c h"
  by (simp add: invoke_issue issue_simps openSocketConnection_def initConnect_def
      split: prod.splits)

theorem host_frame_witness:
  "host (connector_after (invoke (mock (Resolved created)) PostApi example_org ''items'' JNull
      None None)) = ''example.org'' \<and>
   host (fst (openSocketConnection example_org (\<lambda>h. JString h))) = ''example.org''"
  using host_frame [of "mock (Resolved created)" PostApi example_org "''items''" JNull None None
      "\<lambda>h. JString h" fresh 0 Pending None]
  by (simp add: example_org_def)

subsection \<open>Where the bad-JSON error comes from\<close>

text \<open>
  Claim C9, as stated, fails: the catch handler of \<open>getApi\<close>, \<open>headApi\<close> and
  \<open>downloadApi\<close> tests for a \<open>SyntaxError\<close> as the handler of \<open>fetchApi\<close> does, so a
  transport call that rejects with a syntax error makes each of the three reject with the
  generic error of message \<open>fetchApi: bad JSON\<close>.
\<close>

theorem bad_json_without_json_counterexample:
  "outcome (getApi (mock (Rejected (SyntaxError ''Unexpected token''))) example_org ''a''
      None None) = Rejected (Error ''fetchApi: bad JSON'') \<and>
   outcome (headApi (mock (Rejected (SyntaxError ''Unexpected token''))) example_org ''a''
      None None) = Rejected (Error ''fetchApi: bad JSON'') \<and>
   outcome (downloadApi (mock (Rejected (SyntaxError ''Unexpected token''))) example_org ''a''
      None None) = Rejected (Error ''fetchApi: bad JSON'')"
  by (simp add: getApi_def headApi_def downloadApi_def issue_simps mock_fetch
      then_catch_Rejected catch_handler_def)

text \<open>
  Claim C9, amended. \<open>getApi\<close>, \<open>headApi\<close> and \<open>downloadApi\<close> reject with the generic
  error of message \<open>fetchApi: bad JSON\<close> exactly when a syntax error reaches their catch
  handler: the transport call rejects with one, or the response is ok and its \<open>text()\<close>
  (for \<open>getApi\<close>) or \<open>blob()\<close> (for \<open>downloadApi\<close>) rejects with one. For every other
  transport outcome they do not reject with that error.
\<close>

theorem bad_json_only_from_syntax_error:
  assumes "m = GetApi \<or> m = HeadApi \<or> m = DownloadApi"
  shows "outcome (invoke rt m c path body options prefix) =
           Rejected (Error ''fetchApi: bad JSON'') \<longleftrightarrow>
         (\<exists>err. instanceof_SyntaxError err \<and>
            (transport_reply rt m c path body options prefix = Rejected err \<or>
             (\<exists>r. transport_reply rt m c path body options prefix = Resolved r \<and> ok r \<and>
                  (m = GetApi \<and> text_result r = Rejected err \<or>
                   m = DownloadApi \<and> blob_result r = Rejected err))))"
proof (cases "transport_reply rt m c path body options prefix")
  case (Resolved r)
  show ?thesis
  proof (cases "ok r")
    case True
    with Resolved assms show ?thesis
      unfolding invoke_outcome
      by (cases "text_result r"; cases "blob_result r")
         (auto simp add: then_catch_Resolved then_defs catch_handler_bad_json)
  next
    case False
    with Resolved assms show ?thesis
      unfolding invoke_outcome
      by (auto simp add: then_catch_Resolved then_defs catch_handler_def)
  qed
next
  case (Rejected err)
  then show ?thesis
    unfolding invoke_outcome
    by (simp add: then_catch_Rejected catch_handler_bad_json)
next
  case Pending
  then show ?thesis
    unfolding invoke_outcome by (simp add: then_catch_Pending)
qed

theorem bad_json_only_from_syntax_error_witness:
  "outcome (invoke (mock (Rejected (OtherError ''TypeError'' ''Failed to fetch''))) DownloadApi
      example_org ''a'' JUndefined None None) \<noteq> Rejected (Error ''fetchApi: bad JSON'') \<and>
   outcome (invoke (mock (Rejected (SyntaxError ''Unexpected token''))) DownloadApi
      example_org ''a'' JUndefined None None) = Rejected (Error ''fetchApi: bad JSON'')"
  using bad_json_only_from_syntax_error [of DownloadApi
      "mock (Rejected (OtherError ''TypeError'' ''Failed to fetch''))" example_org "''a''"
      JUndefined None None]
    bad_json_only_from_syntax_error [of DownloadApi
      "mock (Rejected (SyntaxError ''Unexpected token''))" example_org "''a''"
      JUndefined None None]
  by (simp add: mock_reply)

end
